theory Spec2Isabelle
  imports Main
begin

section \<open>Data model shared by both scripts\<close>

text \<open>
  The repository holds two browser scripts: \<^verbatim>\<open>docs/script.js\<close>, the class
  \<^verbatim>\<open>BlockCellPDFExtractor\<close>, and a second, simpler script whose functions live in the
  closure of a \<^verbatim>\<open>DOMContentLoaded\<close> handler. Both read the same three properties of a
  browser \<^verbatim>\<open>File\<close>: \<^verbatim>\<open>name\<close>, \<^verbatim>\<open>size\<close> and \<^verbatim>\<open>type\<close>.
  JavaScript strings are modelled as \<^typ>\<open>string\<close>; every operation on them that the
  scripts use (concatenation, comparison, first-occurrence replacement of an ASCII
  pattern) reads the same on code units and on bytes.
\<close>

record File =
  file_name :: string
  file_size :: nat
  file_type :: string

subsection \<open>\<^verbatim>\<open>formatFileSize\<close>\<close>

text \<open>
  \<^verbatim>\<open>
  formatFileSize(bytes) {
      if (bytes === 0) return '0 Bytes';
      const k = 1024;
      const sizes = ['Bytes', 'KB', 'MB', 'GB'];
      const i = Math.floor(Math.log(bytes) / Math.log(k));
      return parseFloat((bytes / Math.pow(k, i)).toFixed(2)) + ' ' + sizes[i];
  }
  \<close>
  The source computes the exponent \<open>i\<close> with double-precision logarithms. The
  model takes \<open>i\<close> to be the exact integer logarithm to base 1024, which is what the
  quotient of logarithms yields wherever it is not within rounding distance of an integer.
  The quotient \<open>bytes / 1024 ^ i\<close> is exact in a double for every integer below \<open>2 ^ 53\<close>,
  \<^verbatim>\<open>toFixed(2)\<close> rounds it to hundredths with ties upwards, and \<^verbatim>\<open>parseFloat\<close>
  followed by string concatenation prints the hundredths without trailing zeros.
  \<^verbatim>\<open>sizes[i]\<close> is \<^verbatim>\<open>undefined\<close> for \<open>i \<ge> 4\<close> and concatenates as that word.
\<close>

fun ilog :: "nat \<Rightarrow> nat \<Rightarrow> nat" where
  "ilog k n = (if k < 2 \<or> n < k then 0 else Suc (ilog k (n div k)))"

declare ilog.simps [simp del]

definition digit :: "nat \<Rightarrow> char" where
  "digit d = ''0123456789'' ! d"

fun decimal :: "nat \<Rightarrow> string" where
  "decimal n = (if n < 10 then [digit n] else decimal (n div 10) @ [digit (n mod 10)])"

declare decimal.simps [simp del]

definition hundredths :: "nat \<Rightarrow> string" where
  "hundredths q =
     (let whole = q div 100; frac = q mod 100 in
      if frac = 0 then decimal whole
      else if frac mod 10 = 0 then decimal whole @ ''.'' @ [digit (frac div 10)]
      else decimal whole @ ''.'' @ [digit (frac div 10), digit (frac mod 10)])"

definition sizes :: "string list" where
  "sizes = [''Bytes'', ''KB'', ''MB'', ''GB'']"

definition formatFileSize :: "nat \<Rightarrow> string" where
  "formatFileSize bytes =
     (if bytes = 0 then ''0 Bytes''
      else
        let k = 1024;
            i = ilog k bytes;
            q = (200 * bytes + k ^ i) div (2 * k ^ i)
        in hundredths q @ '' '' @ (if i < length sizes then sizes ! i else ''undefined''))"

subsection \<open>\<^verbatim>\<open>String.prototype.replace\<close> with a string pattern\<close>

text \<open>
  \<^verbatim>\<open>s.replace(pat, rep)\<close> with a string pattern replaces the first occurrence of
  \<open>pat\<close> in \<open>s\<close> and leaves \<open>s\<close> alone when there is none. Neither replacement
  string used by the scripts contains a \<^verbatim>\<open>$\<close> pattern.
\<close>

fun js_replace :: "string \<Rightarrow> string \<Rightarrow> string \<Rightarrow> string" where
  "js_replace pat rep [] = (if pat = [] then rep else [])"
| "js_replace pat rep (c # cs) =
     (if take (length pat) (c # cs) = pat then rep @ drop (length pat) (c # cs)
      else c # js_replace pat rep cs)"

text \<open>What a download hands to the browser: the parts of the \<^verbatim>\<open>Blob\<close>, its MIME type
  and the \<^verbatim>\<open>download\<close> attribute of the anchor that is clicked.\<close>

record download =
  blob_parts :: "string list"
  blob_type :: string
  suggested_name :: string

section \<open>\<^verbatim>\<open>docs/script.js\<close>: the class \<^verbatim>\<open>BlockCellPDFExtractor\<close>\<close>

record config =
  maxFileSize :: nat
  allowedTypes :: "string list"
  animationDuration :: nat
  processingTime :: nat

record state =
  isProcessing :: bool
  currentFile :: "File option"
  extractedText :: string
  dragCounter :: int

text \<open>
  \<^verbatim>\<open>this.elements\<close> caches the result of \<^verbatim>\<open>getElementById\<close> for each id, which is
  \<^verbatim>\<open>null\<close> on a page without that id; every method tests for it before writing. An
  element is modelled by the one property the class writes on it, \<open>None\<close> being the
  missing element: \<^verbatim>\<open>style.display\<close> for the containers, \<^verbatim>\<open>style.width\<close> for the
  progress bar, \<^verbatim>\<open>textContent\<close> or \<^verbatim>\<open>value\<close> for the others, and whether the class
  \<^verbatim>\<open>drag-over\<close> is set for the drop zone. Buttons that only carry a listener are
  booleans. Animation classes, scrolling and the notification toast change no field
  that any method reads and are left out.
\<close>

record elements =
  dropZone :: "bool option"
  fileInput :: "string option"
  progressContainer :: "string option"
  progressBar :: "string option"
  progressText :: "string option"
  resultsContainer :: "string option"
  extractedContent :: "string option"
  downloadBtn :: bool
  errorContainer :: "string option"
  errorMessage :: "string option"
  filePreview :: "string option"
  fileName :: "string option"
  fileSize :: "string option"
  clearBtn :: bool

text \<open>
  An extraction attempt in flight is the suspended \<^verbatim>\<open>processFile\<close> call: the file it
  closed over and the steps of \<^verbatim>\<open>simulateProcessing\<close> it has not shown yet. It is
  resumed by the timer of \<^verbatim>\<open>delay\<close>.
\<close>

record attempt =
  att_file :: File
  att_steps :: "(nat \<times> string) list"

record extractor =
  config :: config
  state :: state
  elements :: elements
  inflight :: "attempt list"

definition assign :: "'a \<Rightarrow> 'a option \<Rightarrow> 'a option" where
  "assign v el = map_option (\<lambda>_. v) el"

definition setupInitialState :: "extractor \<Rightarrow> extractor" where
  "setupInitialState x =
     x\<lparr>elements := (elements x)\<lparr>
          progressContainer := assign ''none'' (progressContainer (elements x)),
          resultsContainer := assign ''none'' (resultsContainer (elements x)),
          errorContainer := assign ''none'' (errorContainer (elements x)),
          filePreview := assign ''none'' (filePreview (elements x))\<rparr>\<rparr>"

definition init :: "elements \<Rightarrow> extractor" where
  "init els =
     setupInitialState
       \<lparr>config = \<lparr>maxFileSize = 10 * 1024 * 1024, allowedTypes = [''application/pdf''],
                   animationDuration = 300, processingTime = 3000\<rparr>,
        state = \<lparr>isProcessing = False, currentFile = None, extractedText = '''',
                  dragCounter = 0\<rparr>,
        elements = els,
        inflight = []\<rparr>"

datatype validation = Valid | Invalid string

definition validateFile :: "config \<Rightarrow> File \<Rightarrow> validation" where
  "validateFile cfg f =
     (if file_type f \<notin> set (allowedTypes cfg) then Invalid ''Please select a PDF file only.''
      else if file_size f > maxFileSize cfg then
        Invalid (''File size must be less than '' @ formatFileSize (maxFileSize cfg) @ ''.'')
      else Valid)"

definition hideError :: "extractor \<Rightarrow> extractor" where
  "hideError x =
     x\<lparr>elements := (elements x)\<lparr>
          errorContainer := assign ''none'' (errorContainer (elements x))\<rparr>\<rparr>"

definition showError :: "string \<Rightarrow> extractor \<Rightarrow> extractor" where
  "showError message x =
     (if errorContainer (elements x) = None then x
      else x\<lparr>elements := (elements x)\<lparr>
                 errorMessage := assign message (errorMessage (elements x)),
                 errorContainer := Some ''block''\<rparr>\<rparr>)"

definition showFilePreview :: "File \<Rightarrow> extractor \<Rightarrow> extractor" where
  "showFilePreview f x =
     (if filePreview (elements x) = None then x
      else x\<lparr>elements := (elements x)\<lparr>
                 fileName := assign (file_name f) (fileName (elements x)),
                 fileSize := assign (formatFileSize (file_size f)) (fileSize (elements x)),
                 filePreview := Some ''block''\<rparr>\<rparr>)"

definition hideFilePreview :: "extractor \<Rightarrow> extractor" where
  "hideFilePreview x =
     x\<lparr>elements := (elements x)\<lparr>
          filePreview := assign ''none'' (filePreview (elements x))\<rparr>\<rparr>"

definition showProgress :: "extractor \<Rightarrow> extractor" where
  "showProgress x =
     (if progressContainer (elements x) = None then x
      else x\<lparr>elements := (elements x)\<lparr>
                 progressContainer := Some ''block'',
                 progressBar := assign ''0%'' (progressBar (elements x))\<rparr>\<rparr>)"

definition hideProgress :: "extractor \<Rightarrow> extractor" where
  "hideProgress x =
     x\<lparr>elements := (elements x)\<lparr>
          progressContainer := assign ''none'' (progressContainer (elements x))\<rparr>\<rparr>"

definition updateProgress :: "nat \<Rightarrow> string \<Rightarrow> extractor \<Rightarrow> extractor" where
  "updateProgress percentage message x =
     x\<lparr>elements := (elements x)\<lparr>
          progressBar := assign (decimal percentage @ ''%'') (progressBar (elements x)),
          progressText := assign message (progressText (elements x))\<rparr>\<rparr>"

definition showResults :: "string \<Rightarrow> extractor \<Rightarrow> extractor" where
  "showResults text x =
     (if resultsContainer (elements x) = None then x
      else x\<lparr>elements := (elements x)\<lparr>
                 extractedContent := assign text (extractedContent (elements x)),
                 resultsContainer := Some ''block''\<rparr>\<rparr>)"

definition hideResults :: "extractor \<Rightarrow> extractor" where
  "hideResults x =
     x\<lparr>elements := (elements x)\<lparr>
          resultsContainer := assign ''none'' (resultsContainer (elements x))\<rparr>\<rparr>"

definition clearFile :: "extractor \<Rightarrow> extractor" where
  "clearFile x =
     (let x1 = x\<lparr>state := (state x)\<lparr>currentFile := None, extractedText := ''''\<rparr>\<rparr>;
          x2 = x1\<lparr>elements := (elements x1)\<lparr>
                    fileInput := assign '''' (fileInput (elements x1))\<rparr>\<rparr>
      in hideError (hideProgress (hideResults (hideFilePreview x2))))"

text \<open>
  The text that stands for the extraction. \<open>now\<close> is what
  \<^verbatim>\<open>new Date().toLocaleString()\<close> prints when the attempt settles.
\<close>

definition generateMockExtractedText :: "string \<Rightarrow> string \<Rightarrow> string" where
  "generateMockExtractedText fileName' now =
     ''# Extracted Text from '' @ fileName' @
     ''\<newline>\<newline>This is a sample of extracted text content from your PDF file. In a real implementation, this would contain the actual text extracted from the PDF document.\<newline>\<newline>## Document Summary\<newline>- File processed successfully\<newline>- Text extraction completed\<newline>- Ready for download or copying\<newline>\<newline>## Sample Content\<newline>Lorem ipsum dolor sit amet, consectetur adipiscing elit. Sed do eiusmod tempor incididunt ut labore et dolore magna aliqua. Ut enim ad minim veniam, quis nostrud exercitation ullamco laboris.\<newline>\<newline>### Key Features Extracted:\<newline>1. Headers and subheaders\<newline>2. Paragraph text\<newline>3. Lists and bullet points\<newline>4. Special formatting\<newline>\<newline>This extracted content maintains the structure and formatting of the original document while providing clean, searchable text output.\<newline>\<newline>---\<newline>*Extraction completed at '' @ now @ ''*''"

text \<open>
  \<^verbatim>\<open>
  async processFile(file) {
      if (this.state.isProcessing) return;
      this.state.isProcessing = true;
      this.showProgress();
      try {
          await this.simulateProcessing();
          const extractedText = this.generateMockExtractedText(file.name);
          this.state.extractedText = extractedText;
          this.hideProgress();
          this.showResults(extractedText);
      } catch (error) { ... } finally {
          this.state.isProcessing = false;
      }
  }
  \<close>
  \<^verbatim>\<open>simulateProcessing\<close> shows each of its five steps and then awaits a
  \<^verbatim>\<open>delay\<close> of a fifth of \<^verbatim>\<open>processingTime\<close>. An \<^verbatim>\<open>async\<close> function runs
  synchronously up to its first pending promise, and \<^verbatim>\<open>updateProgress\<close> awaits nothing,
  so \<^verbatim>\<open>processFile\<close> returns to its caller with the first step shown and the first
  timer set. Each timer resumes the attempt: the next step is shown and the next timer
  set or, after the fifth, the rest of \<^verbatim>\<open>processFile\<close> runs. Between two timers any
  other handler may run; promise continuations cannot be interleaved with handlers.
  Nothing inside the \<^verbatim>\<open>try\<close> block raises (the timers always resolve, the other
  calls write element properties), so the \<^verbatim>\<open>catch\<close> branch has no transition.
\<close>

definition first_step :: "nat \<times> string" where
  "first_step = (20, ''Reading PDF file...'')"

definition later_steps :: "(nat \<times> string) list" where
  "later_steps =
     [(40, ''Analyzing document structure...''),
      (60, ''Extracting text content...''),
      (80, ''Processing formatting...''),
      (100, ''Complete!'')]"

definition await_delay :: "attempt \<Rightarrow> extractor \<Rightarrow> extractor" where
  "await_delay a x = x\<lparr>inflight := inflight x @ [a]\<rparr>"

definition processFile :: "File \<Rightarrow> extractor \<Rightarrow> extractor" where
  "processFile f x =
     (if isProcessing (state x) then x
      else
        let x1 = x\<lparr>state := (state x)\<lparr>isProcessing := True\<rparr>\<rparr>;
            x2 = showProgress x1;
            x3 = updateProgress (fst first_step) (snd first_step) x2
        in await_delay \<lparr>att_file = f, att_steps = later_steps\<rparr> x3)"

definition processFile_settle :: "string \<Rightarrow> File \<Rightarrow> extractor \<Rightarrow> extractor" where
  "processFile_settle now f x =
     (let text = generateMockExtractedText (file_name f) now;
          x1 = x\<lparr>state := (state x)\<lparr>extractedText := text\<rparr>\<rparr>;
          x2 = hideProgress x1;
          x3 = showResults text x2
      in x3\<lparr>state := (state x3)\<lparr>isProcessing := False\<rparr>\<rparr>)"

definition timer :: "string \<Rightarrow> extractor \<Rightarrow> extractor" where
  "timer now x =
     (case inflight x of
        [] \<Rightarrow> x
      | a # rest \<Rightarrow>
          (case att_steps a of
             [] \<Rightarrow> processFile_settle now (att_file a) (x\<lparr>inflight := rest\<rparr>)
           | (percentage, message) # later \<Rightarrow>
               await_delay (a\<lparr>att_steps := later\<rparr>)
                 (updateProgress percentage message (x\<lparr>inflight := rest\<rparr>))))"

definition handleFileSelection :: "File \<Rightarrow> extractor \<Rightarrow> extractor" where
  "handleFileSelection f x =
     (case validateFile (config x) f of
        Invalid message \<Rightarrow> showError message x
      | Valid \<Rightarrow>
          let x1 = hideError x;
              x2 = x1\<lparr>state := (state x1)\<lparr>currentFile := Some f\<rparr>\<rparr>;
              x3 = showFilePreview f x2
          in processFile f x3)"

definition handleEscapeKey :: "extractor \<Rightarrow> extractor" where
  "handleEscapeKey x =
     (let x1 = hideError x in
      if \<not> isProcessing (state x1) \<and> currentFile (state x1) \<noteq> None then clearFile x1
      else x1)"

definition reset :: "extractor \<Rightarrow> extractor" where
  "reset x = hideError (clearFile x)"

definition downloadText :: "extractor \<Rightarrow> download option" where
  "downloadText x =
     (case currentFile (state x) of
        None \<Rightarrow> None
      | Some f \<Rightarrow>
          if extractedText (state x) = '''' then None
          else Some \<lparr>blob_parts = [extractedText (state x)], blob_type = ''text/plain'',
                     suggested_name = js_replace ''.pdf'' '''' (file_name f) @ ''_extracted.txt''\<rparr>)"

text \<open>
  The handlers that the constructor binds. \<^verbatim>\<open>setupFileUpload\<close> returns before binding
  anything when the page has no drop zone, and binds the listeners of the file input and
  of the clear button only when these exist. The escape key is bound on the document,
  and \<^verbatim>\<open>reset\<close> is a public method of the instance kept in
  \<^verbatim>\<open>window.blockCellExtractor\<close>.
\<close>

datatype event =
    DragEnter
  | DragLeave
  | Drop "File list"
  | FileInputChange "File list"
  | ClearClick
  | EscapeKey
  | Timer string
  | Reset

definition on_files :: "File list \<Rightarrow> extractor \<Rightarrow> extractor" where
  "on_files files x = (case files of [] \<Rightarrow> x | f # _ \<Rightarrow> handleFileSelection f x)"

fun step :: "extractor \<Rightarrow> event \<Rightarrow> extractor" where
  "step x DragEnter =
     (if dropZone (elements x) = None then x
      else x\<lparr>state := (state x)\<lparr>dragCounter := dragCounter (state x) + 1\<rparr>,
             elements := (elements x)\<lparr>dropZone := Some True\<rparr>\<rparr>)"
| "step x DragLeave =
     (if dropZone (elements x) = None then x
      else
        let x1 = x\<lparr>state := (state x)\<lparr>dragCounter := dragCounter (state x) - 1\<rparr>\<rparr>
        in if dragCounter (state x1) = 0
           then x1\<lparr>elements := (elements x1)\<lparr>dropZone := Some False\<rparr>\<rparr> else x1)"
| "step x (Drop files) =
     (if dropZone (elements x) = None then x
      else on_files files
             (x\<lparr>state := (state x)\<lparr>dragCounter := 0\<rparr>,
                elements := (elements x)\<lparr>dropZone := Some False\<rparr>\<rparr>))"
| "step x (FileInputChange files) =
     (if dropZone (elements x) = None \<or> fileInput (elements x) = None then x
      else on_files files x)"
| "step x ClearClick =
     (if dropZone (elements x) = None \<or> \<not> clearBtn (elements x) then x else clearFile x)"
| "step x EscapeKey = handleEscapeKey x"
| "step x (Timer now) = timer now x"
| "step x Reset = reset x"

definition run :: "extractor \<Rightarrow> event list \<Rightarrow> extractor" where
  "run x es = foldl step x es"

text \<open>
  The states of the lifecycle are not stored by the class; they are read off its fields.
  A session is idle when nothing is in progress, no file and no text are stored, and no
  error banner is displayed.
\<close>

definition idle :: "extractor \<Rightarrow> bool" where
  "idle x =
     (\<not> isProcessing (state x) \<and> currentFile (state x) = None \<and>
      extractedText (state x) = '''' \<and> errorContainer (elements x) \<noteq> Some ''block'')"

definition blob_text :: "download \<Rightarrow> string" where
  "blob_text d = concat (blob_parts d)"

section \<open>The second script: plain functions in a \<^verbatim>\<open>DOMContentLoaded\<close> closure\<close>

text \<open>
  The closure holds one variable, \<^verbatim>\<open>currentFile\<close>, and the elements it looked up when
  the page loaded; \<^verbatim>\<open>#fileName\<close>, \<^verbatim>\<open>#fileSize\<close> and the text area
  \<^verbatim>\<open>#extractedText\<close> are looked up at each use. As before an element is the property
  the script writes, \<open>None\<close> when the page lacks it. The script reports through
  \<^verbatim>\<open>alert\<close>, kept as the list of messages shown, and starts an extraction with a
  \<^verbatim>\<open>setTimeout\<close> of three seconds, kept as the number of timeouts pending. An
  exception that leaves a callback is recorded in \<open>s_uncaught\<close>; what the callback did
  before stays done. The border colours of the upload area, the date of the preview and
  the random statistics are written and never read, and are left out. The click listener
  of the extract button is reached from the button, from the keyboard and from
  \<^verbatim>\<open>window.extractText\<close>, which calls \<^verbatim>\<open>extractBtn.click()\<close>; the loading overlay
  is a style and stops none of them.
\<close>

record simple =
  s_currentFile :: "File option"
  s_uploadArea :: bool
  s_fileInput :: "string option"
  s_filePreview :: "string option"
  s_uploadCard :: "string option"
  s_optionsCard :: "string option"
  s_resultsCard :: "string option"
  s_extractBtn :: bool
  s_loadingOverlay :: "string option"
  s_fileName :: "string option"
  s_fileSize :: "string option"
  s_extractedText :: "string option"
  s_alerts :: "string list"
  s_timeouts :: nat
  s_uncaught :: "string list"

definition alert :: "string \<Rightarrow> simple \<Rightarrow> simple" where
  "alert message p = p\<lparr>s_alerts := s_alerts p @ [message]\<rparr>"

definition showFilePreview_simple :: "File \<Rightarrow> simple \<Rightarrow> simple" where
  "showFilePreview_simple f p =
     p\<lparr>s_fileName := assign (file_name f) (s_fileName p),
       s_fileSize := assign (formatFileSize (file_size f)) (s_fileSize p),
       s_filePreview := assign ''block'' (s_filePreview p)\<rparr>"

definition showOptionsCard :: "simple \<Rightarrow> simple" where
  "showOptionsCard p = p\<lparr>s_optionsCard := assign ''block'' (s_optionsCard p)\<rparr>"

definition handleFileSelect :: "File \<Rightarrow> simple \<Rightarrow> simple" where
  "handleFileSelect f p =
     (if file_type f \<noteq> ''application/pdf'' then alert ''Please select a PDF file'' p
      else if file_size f > 50 * 1024 * 1024 then alert ''File size must be less than 50MB'' p
      else showOptionsCard (showFilePreview_simple f (p\<lparr>s_currentFile := Some f\<rparr>)))"

definition extractPDF :: "simple \<Rightarrow> simple" where
  "extractPDF p =
     p\<lparr>s_loadingOverlay := assign ''flex'' (s_loadingOverlay p),
       s_timeouts := s_timeouts p + 1\<rparr>"

definition sample_text :: "File \<Rightarrow> string \<Rightarrow> string" where
  "sample_text f now =
     ''Sample extracted text from '' @ file_name f @
     '':\<newline>\<newline>This is a demonstration of the PDF extraction functionality.\<newline>\<newline>The actual extraction would process the PDF content and display it here.\<newline>\<newline>File: '' @
     file_name f @ ''\<newline>Size: '' @ formatFileSize (file_size f) @
     ''\<newline>Processed: '' @ now"

definition showResults_simple :: "string \<Rightarrow> simple \<Rightarrow> simple" where
  "showResults_simple now p =
     (let p1 = p\<lparr>s_uploadCard := assign ''none'' (s_uploadCard p),
                  s_optionsCard := assign ''none'' (s_optionsCard p),
                  s_resultsCard := assign ''block'' (s_resultsCard p)\<rparr>
      in if s_extractedText p1 = None then p1
         else (case s_currentFile p1 of
                 None \<Rightarrow> p1\<lparr>s_uncaught := s_uncaught p1 @ [''TypeError'']\<rparr>
               | Some f \<Rightarrow> p1\<lparr>s_extractedText := Some (sample_text f now)\<rparr>))"

definition timeout_fires :: "string \<Rightarrow> simple \<Rightarrow> simple" where
  "timeout_fires now p =
     (if s_timeouts p = 0 then p
      else showResults_simple now
             (p\<lparr>s_timeouts := s_timeouts p - 1,
                s_loadingOverlay := assign ''none'' (s_loadingOverlay p)\<rparr>))"

definition extract_click :: "simple \<Rightarrow> simple" where
  "extract_click p =
     (if s_currentFile p = None then alert ''Please select a PDF file first'' p
      else extractPDF p)"

definition removeFile :: "simple \<Rightarrow> simple" where
  "removeFile p =
     p\<lparr>s_currentFile := None,
       s_filePreview := assign ''none'' (s_filePreview p),
       s_optionsCard := assign ''none'' (s_optionsCard p),
       s_fileInput := assign '''' (s_fileInput p)\<rparr>"

definition reset_simple :: "simple \<Rightarrow> simple" where
  "reset_simple p =
     p\<lparr>s_currentFile := None,
       s_uploadCard := assign ''block'' (s_uploadCard p),
       s_optionsCard := assign ''none'' (s_optionsCard p),
       s_resultsCard := assign ''none'' (s_resultsCard p),
       s_filePreview := assign ''none'' (s_filePreview p),
       s_fileInput := assign '''' (s_fileInput p)\<rparr>"

datatype js_error = TypeError

text \<open>\<^verbatim>\<open>window.downloadExcel\<close> and \<^verbatim>\<open>window.downloadText\<close> have the same body: nothing
  without a current file, a \<^verbatim>\<open>TypeError\<close> when the text area is missing.\<close>

definition downloadText_simple :: "simple \<Rightarrow> js_error + download option" where
  "downloadText_simple p =
     (case s_currentFile p of
        None \<Rightarrow> Inr None
      | Some f \<Rightarrow>
          (case s_extractedText p of
             None \<Rightarrow> Inl TypeError
           | Some content \<Rightarrow>
               Inr (Some \<lparr>blob_parts = [content], blob_type = ''text/plain'',
                          suggested_name =
                            js_replace ''.pdf'' ''_extracted.txt'' (file_name f)\<rparr>)))"

definition downloadExcel :: "simple \<Rightarrow> js_error + download option" where
  "downloadExcel p = downloadText_simple p"

datatype simple_event =
    DropOnArea "File list"
  | InputChange "File list"
  | ExtractClick
  | TimeoutFires string
  | RemoveFile
  | ResetClick

fun simple_step :: "simple \<Rightarrow> simple_event \<Rightarrow> simple" where
  "simple_step p (DropOnArea files) =
     (if \<not> s_uploadArea p then p
      else (case files of
              [] \<Rightarrow> alert ''Please select a PDF file'' p
            | f # _ \<Rightarrow>
                if file_type f = ''application/pdf'' then handleFileSelect f p
                else alert ''Please select a PDF file'' p))"
| "simple_step p (InputChange files) =
     (if s_fileInput p = None then p
      else (case files of [] \<Rightarrow> p | f # _ \<Rightarrow> handleFileSelect f p))"
| "simple_step p ExtractClick = (if \<not> s_extractBtn p then p else extract_click p)"
| "simple_step p (TimeoutFires now) = timeout_fires now p"
| "simple_step p RemoveFile = removeFile p"
| "simple_step p ResetClick = reset_simple p"

definition simple_run :: "simple \<Rightarrow> simple_event list \<Rightarrow> simple" where
  "simple_run p es = foldl simple_step p es"

section \<open>Sample pages and files\<close>

definition full_page :: elements where
  "full_page =
     \<lparr>dropZone = Some False, fileInput = Some '''', progressContainer = Some '''',
      progressBar = Some '''', progressText = Some '''', resultsContainer = Some '''',
      extractedContent = Some '''', downloadBtn = True, errorContainer = Some '''',
      errorMessage = Some '''', filePreview = Some '''', fileName = Some '''',
      fileSize = Some '''', clearBtn = True\<rparr>"

definition simple_page :: simple where
  "simple_page =
     \<lparr>s_currentFile = None, s_uploadArea = True, s_fileInput = Some '''',
      s_filePreview = Some ''none'', s_uploadCard = Some ''block'',
      s_optionsCard = Some ''none'', s_resultsCard = Some ''none'', s_extractBtn = True,
      s_loadingOverlay = Some ''none'', s_fileName = Some '''', s_fileSize = Some '''',
      s_extractedText = Some '''', s_alerts = [], s_timeouts = 0, s_uncaught = []\<rparr>"

definition a_pdf :: File where
  "a_pdf = \<lparr>file_name = ''a.pdf'', file_size = 2 * 1024 * 1024,
            file_type = ''application/pdf''\<rparr>"

definition b_pdf :: File where
  "b_pdf = \<lparr>file_name = ''b.pdf'', file_size = 1536, file_type = ''application/pdf''\<rparr>"

definition big_png :: File where
  "big_png = \<lparr>file_name = ''scan.png'', file_size = 20 * 1024 * 1024,
              file_type = ''image/png''\<rparr>"

definition big_pdf :: File where
  "big_pdf = \<lparr>file_name = ''big.pdf'', file_size = 60 * 1024 * 1024,
              file_type = ''application/pdf''\<rparr>"

definition report_pdf :: File where
  "report_pdf = \<lparr>file_name = ''report.pdf'', file_size = 4096,
                 file_type = ''application/pdf''\<rparr>"

definition twice_pdf :: File where
  "twice_pdf = \<lparr>file_name = ''a.pdfb.pdf'', file_size = 4096,
                file_type = ''application/pdf''\<rparr>"

definition a_time :: string where
  "a_time = ''3/11/2026, 10:00:00 AM''"

definition five_timers :: "event list" where
  "five_timers = [Timer a_time, Timer a_time, Timer a_time, Timer a_time, Timer a_time]"

definition notes_pdf :: File where
  "notes_pdf = \<lparr>file_name = ''NOTES.PDF'', file_size = 4096,
                file_type = ''application/pdf''\<rparr>"

definition result_session :: extractor where
  "result_session =
     (init full_page)\<lparr>state := \<lparr>isProcessing = False, currentFile = Some report_pdf,
                                   extractedText = ''T'', dragCounter = 0\<rparr>\<rparr>"

definition twice_session :: extractor where
  "twice_session =
     (init full_page)\<lparr>state := \<lparr>isProcessing = False, currentFile = Some twice_pdf,
                                   extractedText = ''T'', dragCounter = 0\<rparr>\<rparr>"

definition notes_session :: extractor where
  "notes_session =
     (init full_page)\<lparr>state := \<lparr>isProcessing = False, currentFile = Some notes_pdf,
                                   extractedText = ''T'', dragCounter = 0\<rparr>\<rparr>"

text \<open>Four sessions reached from the initial one: a first extraction in flight, the same
  extraction completed, a second file chosen after that, and a first extraction that was
  cleared while in flight and then ran to its end.\<close>

definition processing_a :: extractor where
  "processing_a = run (init full_page) [FileInputChange [a_pdf]]"

definition result_a :: extractor where
  "result_a = run (init full_page) (FileInputChange [a_pdf] # five_timers)"

definition second_processing :: extractor where
  "second_processing =
     run (init full_page) (FileInputChange [a_pdf] # five_timers @ [FileInputChange [b_pdf]])"

definition stale_result :: extractor where
  "stale_result = run (init full_page) (FileInputChange [a_pdf] # ClearClick # five_timers)"

section \<open>Invariants of the class\<close>

text \<open>Two properties that every handler preserves: the result panel is displayed exactly
  while extracted text is stored, and the flag \<^verbatim>\<open>isProcessing\<close> is set exactly while
  one attempt, and never more than one, is in flight.\<close>

definition results_consistent :: "extractor \<Rightarrow> bool" where
  "results_consistent x =
     (resultsContainer (elements x) \<noteq> None \<and>
      (extractedText (state x) \<noteq> '''' \<longleftrightarrow> resultsContainer (elements x) = Some ''block''))"

definition single_flight :: "extractor \<Rightarrow> bool" where
  "single_flight x =
     ((isProcessing (state x) \<longleftrightarrow> inflight x \<noteq> []) \<and> length (inflight x) \<le> 1)"

section \<open>Evaluation and frame lemmas\<close>

lemmas sample_defs = full_page_def a_pdf_def b_pdf_def big_png_def big_pdf_def
  report_pdf_def twice_pdf_def five_timers_def simple_page_def

lemmas method_defs = init_def setupInitialState_def assign_def
  on_files_def handleFileSelection_def validateFile_def hideError_def showError_def
  showFilePreview_def processFile_def showProgress_def updateProgress_def await_delay_def
  first_step_def later_steps_def timer_def processFile_settle_def hideProgress_def
  showResults_def clearFile_def hideResults_def hideFilePreview_def handleEscapeKey_def
  reset_def downloadText_def run_def

lemma ilog_10MiB: "ilog 1024 10485760 = 2"
  by (simp add: ilog.simps)

lemma hundredths_1000: "hundredths 1000 = ''10''"
  by (simp add: hundredths_def decimal.simps digit_def)

lemma formatFileSize_10MiB: "formatFileSize 10485760 = ''10 MB''"
  by (simp add: formatFileSize_def Let_def ilog_10MiB hundredths_1000 sizes_def)

lemma validateFile_wrong_type:
  "file_type f \<notin> set (allowedTypes cfg) \<Longrightarrow>
   validateFile cfg f = Invalid ''Please select a PDF file only.''"
  by (simp add: validateFile_def)

lemma validateFile_too_large:
  "file_type f \<in> set (allowedTypes cfg) \<Longrightarrow> maxFileSize cfg < file_size f \<Longrightarrow>
   validateFile cfg f =
     Invalid (''File size must be less than '' @ formatFileSize (maxFileSize cfg) @ ''.'')"
  by (simp add: validateFile_def)

lemma handleFileSelection_invalid:
  "validateFile (config x) f = Invalid m \<Longrightarrow> handleFileSelection f x = showError m x"
  by (simp add: handleFileSelection_def)

lemma showError_state [simp]: "state (showError m x) = state x"
  and showError_inflight [simp]: "inflight (showError m x) = inflight x"
  and showError_config [simp]: "config (showError m x) = config x"
  by (simp_all add: showError_def)

lemma showError_banner:
  "errorContainer (elements x) \<noteq> None \<Longrightarrow>
   errorContainer (elements (showError m x)) = Some ''block'' \<and>
   errorMessage (elements (showError m x)) = assign m (errorMessage (elements x))"
  by (simp add: showError_def)

lemma generateMockExtractedText_nonempty [simp]: "generateMockExtractedText n now \<noteq> ''''"
  by (simp add: generateMockExtractedText_def)

lemma js_replace_first:
  "pat \<noteq> [] \<Longrightarrow>
   (\<forall>u' v'. u @ pat @ v = u' @ pat @ v' \<longrightarrow> length u \<le> length u') \<Longrightarrow>
   js_replace pat rep (u @ pat @ v) = u @ rep @ v"
proof (induction u)
  case Nil
  then obtain c cs where "pat = c # cs" by (cases pat) auto
  then show ?case by simp
next
  case (Cons a u)
  have no: "take (length pat) (a # u @ pat @ v) \<noteq> pat"
  proof
    assume t: "take (length pat) (a # u @ pat @ v) = pat"
    have "(a # u) @ pat @ v = [] @ pat @ drop (length pat) (a # u @ pat @ v)"
      using append_take_drop_id [of "length pat" "a # u @ pat @ v"] t by simp
    with Cons.prems(2) have "length (a # u) \<le> length ([] :: string)" by blast
    then show False by simp
  qed
  have "\<forall>u' v'. u @ pat @ v = u' @ pat @ v' \<longrightarrow> length u \<le> length u'"
  proof (intro allI impI)
    fix u' v' assume "u @ pat @ v = u' @ pat @ v'"
    then have "(a # u) @ pat @ v = (a # u') @ pat @ v'" by simp
    with Cons.prems(2) have "length (a # u) \<le> length (a # u')" by blast
    then show "length u \<le> length u'" by simp
  qed
  with Cons.IH Cons.prems(1) have "js_replace pat rep (u @ pat @ v) = u @ rep @ v" by blast
  with no show ?case by simp
qed

lemma js_replace_absent:
  "(\<forall>u v. s \<noteq> u @ pat @ v) \<Longrightarrow> js_replace pat rep s = s"
proof (induction s)
  case Nil
  then have "pat \<noteq> []" by auto
  then show ?case by simp
next
  case (Cons c cs)
  have no: "take (length pat) (c # cs) \<noteq> pat"
  proof
    assume t: "take (length pat) (c # cs) = pat"
    have "c # cs = [] @ pat @ drop (length pat) (c # cs)"
      using append_take_drop_id [of "length pat" "c # cs"] t by simp
    with Cons.prems show False by blast
  qed
  have "\<forall>u v. cs \<noteq> u @ pat @ v"
  proof (intro allI notI)
    fix u v assume "cs = u @ pat @ v"
    then have "c # cs = (c # u) @ pat @ v" by simp
    with Cons.prems show False by blast
  qed
  with Cons.IH have "js_replace pat rep cs = cs" by blast
  with no show ?case by simp
qed

lemma twice_first_occurrence:
  "\<forall>u' v'. ''a.pdfb.pdf'' = u' @ ''.pdf'' @ v' \<longrightarrow> length ''a'' \<le> length u'"
proof (intro allI impI)
  fix u' v' :: string
  assume "''a.pdfb.pdf'' = u' @ ''.pdf'' @ v'"
  then show "length ''a'' \<le> length u'" by (cases u') simp_all
qed

lemma notes_no_occurrence: "\<forall>u v. ''NOTES.PDF'' \<noteq> u @ ''.pdf'' @ v"
proof (intro allI notI)
  fix u v :: string
  assume eq: "''NOTES.PDF'' = u @ ''.pdf'' @ v"
  have "CHR ''p'' \<in> set (u @ ''.pdf'' @ v)" by simp
  then have "CHR ''p'' \<in> set ''NOTES.PDF''" by (simp only: eq [symmetric])
  then show False by simp
qed

lemmas view_defs = assign_def hideError_def showError_def showFilePreview_def showProgress_def
  updateProgress_def hideProgress_def showResults_def hideResults_def hideFilePreview_def

lemma rc_handleFileSelection:
  "results_consistent x \<Longrightarrow> results_consistent (handleFileSelection f x)"
  by (simp add: results_consistent_def handleFileSelection_def processFile_def await_delay_def
      view_defs Let_def split: validation.splits)

lemma rc_clearFile: "results_consistent x \<Longrightarrow> results_consistent (clearFile x)"
  by (auto simp add: results_consistent_def clearFile_def view_defs Let_def)

lemma rc_timer: "results_consistent x \<Longrightarrow> results_consistent (timer now x)"
  by (auto simp add: results_consistent_def timer_def processFile_settle_def await_delay_def
      view_defs Let_def split: list.splits prod.splits)

lemma rc_hideError: "results_consistent x \<Longrightarrow> results_consistent (hideError x)"
  by (simp add: results_consistent_def hideError_def)

lemma rc_step: "results_consistent x \<Longrightarrow> results_consistent (step x e)"
proof (cases e)
  case DragEnter
  assume "results_consistent x"
  then show ?thesis using DragEnter by (simp add: results_consistent_def)
next
  case DragLeave
  assume "results_consistent x"
  then show ?thesis using DragLeave by (simp add: results_consistent_def Let_def)
next
  case (Drop files)
  assume a: "results_consistent x"
  let ?y = "x\<lparr>state := (state x)\<lparr>dragCounter := 0\<rparr>,
              elements := (elements x)\<lparr>dropZone := Some False\<rparr>\<rparr>"
  from a have "results_consistent ?y" by (simp add: results_consistent_def)
  then have "results_consistent (on_files files ?y)"
    by (simp add: on_files_def rc_handleFileSelection split: list.splits)
  with a show ?thesis using Drop by simp
next
  case (FileInputChange files)
  assume a: "results_consistent x"
  then have "results_consistent (on_files files x)"
    by (simp add: on_files_def rc_handleFileSelection split: list.splits)
  with a show ?thesis using FileInputChange by simp
next
  case ClearClick
  assume "results_consistent x"
  then show ?thesis using ClearClick by (simp add: rc_clearFile)
next
  case EscapeKey
  assume "results_consistent x"
  then show ?thesis using EscapeKey
    by (simp add: handleEscapeKey_def Let_def rc_clearFile rc_hideError)
next
  case (Timer now)
  assume "results_consistent x"
  then show ?thesis using Timer by (simp add: rc_timer)
next
  case Reset
  assume "results_consistent x"
  then show ?thesis using Reset by (simp add: reset_def rc_clearFile rc_hideError)
qed

lemma rc_run: "results_consistent x \<Longrightarrow> results_consistent (run x es)"
  unfolding run_def by (induction es arbitrary: x) (simp_all add: rc_step)

lemma rc_init: "resultsContainer els \<noteq> None \<Longrightarrow> results_consistent (init els)"
  by (auto simp add: results_consistent_def init_def setupInitialState_def assign_def)

lemma sf_handleFileSelection: "single_flight x \<Longrightarrow> single_flight (handleFileSelection f x)"
  by (auto simp add: single_flight_def handleFileSelection_def processFile_def await_delay_def
      view_defs Let_def split: validation.splits)

lemma sf_clearFile: "single_flight x \<Longrightarrow> single_flight (clearFile x)"
  by (simp add: single_flight_def clearFile_def view_defs Let_def)

lemma sf_hideError: "single_flight x \<Longrightarrow> single_flight (hideError x)"
  by (simp add: single_flight_def hideError_def)

lemma sf_timer: "single_flight x \<Longrightarrow> single_flight (timer now x)"
  by (auto simp add: single_flight_def timer_def processFile_settle_def await_delay_def
      view_defs Let_def split: list.splits prod.splits)

lemma sf_step: "single_flight x \<Longrightarrow> single_flight (step x e)"
proof (cases e)
  case DragEnter
  assume "single_flight x"
  then show ?thesis using DragEnter by (simp add: single_flight_def)
next
  case DragLeave
  assume "single_flight x"
  then show ?thesis using DragLeave by (simp add: single_flight_def Let_def)
next
  case (Drop files)
  assume a: "single_flight x"
  let ?y = "x\<lparr>state := (state x)\<lparr>dragCounter := 0\<rparr>,
              elements := (elements x)\<lparr>dropZone := Some False\<rparr>\<rparr>"
  from a have "single_flight ?y" by (simp add: single_flight_def)
  then have "single_flight (on_files files ?y)"
    by (simp add: on_files_def sf_handleFileSelection split: list.splits)
  with a show ?thesis using Drop by simp
next
  case (FileInputChange files)
  assume a: "single_flight x"
  then have "single_flight (on_files files x)"
    by (simp add: on_files_def sf_handleFileSelection split: list.splits)
  with a show ?thesis using FileInputChange by simp
next
  case ClearClick
  assume "single_flight x"
  then show ?thesis using ClearClick by (simp add: sf_clearFile)
next
  case EscapeKey
  assume "single_flight x"
  then show ?thesis using EscapeKey
    by (simp add: handleEscapeKey_def Let_def sf_clearFile sf_hideError)
next
  case (Timer now)
  assume "single_flight x"
  then show ?thesis using Timer by (simp add: sf_timer)
next
  case Reset
  assume "single_flight x"
  then show ?thesis using Reset by (simp add: reset_def sf_clearFile sf_hideError)
qed

lemma sf_run: "single_flight x \<Longrightarrow> single_flight (run x es)"
  unfolding run_def by (induction es arbitrary: x) (simp_all add: sf_step)

lemma sf_init: "single_flight (init els)"
  by (simp add: single_flight_def init_def setupInitialState_def)

lemmas trace_defs = processing_a_def result_a_def second_processing_def stale_result_def
  method_defs sample_defs Let_def

lemma processing_a_state:
  "state processing_a =
     \<lparr>isProcessing = True, currentFile = Some a_pdf, extractedText = '''', dragCounter = 0\<rparr>"
  by (simp add: trace_defs)

lemma processing_a_inflight:
  "inflight processing_a = [\<lparr>att_file = a_pdf, att_steps = later_steps\<rparr>]"
  by (simp add: trace_defs)

lemma result_a_state:
  "state result_a =
     \<lparr>isProcessing = False, currentFile = Some a_pdf,
      extractedText = generateMockExtractedText ''a.pdf'' a_time, dragCounter = 0\<rparr>"
  by (simp add: trace_defs)

lemma second_processing_state:
  "state second_processing =
     \<lparr>isProcessing = True, currentFile = Some b_pdf,
      extractedText = generateMockExtractedText ''a.pdf'' a_time, dragCounter = 0\<rparr>"
  by (simp add: trace_defs)

lemma second_processing_results:
  "resultsContainer (elements second_processing) = Some ''block''"
  by (simp add: trace_defs)

lemma stale_result_state:
  "state stale_result =
     \<lparr>isProcessing = False, currentFile = None,
      extractedText = generateMockExtractedText ''a.pdf'' a_time, dragCounter = 0\<rparr>"
  by (simp add: trace_defs)

lemma stale_result_results:
  "resultsContainer (elements stale_result) = Some ''block''"
  by (simp add: trace_defs)

lemma processing_a_results:
  "resultsContainer (elements processing_a) = Some ''none''"
  by (simp add: trace_defs)

lemma run_append: "run x (es @ es') = run (run x es) es'"
  by (simp add: run_def)

lemma run_Cons: "run x (e # es) = run (step x e) es"
  by (simp add: run_def)

lemma run_Nil: "run x [] = x"
  by (simp add: run_def)

lemma timer_progress_step:
  "inflight y = [a] \<Longrightarrow> att_steps a = (p, m) # rest \<Longrightarrow>
   state (timer n y) = state y \<and> inflight (timer n y) = [a\<lparr>att_steps := rest\<rparr>] \<and>
   resultsContainer (elements (timer n y)) = resultsContainer (elements y)"
  by (simp add: timer_def await_delay_def updateProgress_def)

lemma timer_settles:
  "inflight y = [a] \<Longrightarrow> att_steps a = [] \<Longrightarrow>
   timer now y = processFile_settle now (att_file a) (y\<lparr>inflight := []\<rparr>)"
  by (simp add: timer_def)

lemma timers_progress:
  "inflight y = [a] \<Longrightarrow> length nows = length (att_steps a) \<Longrightarrow>
   state (run y (map Timer nows)) = state y \<and>
   inflight (run y (map Timer nows)) = [a\<lparr>att_steps := []\<rparr>] \<and>
   resultsContainer (elements (run y (map Timer nows))) = resultsContainer (elements y)"
proof (induction nows arbitrary: y a)
  case Nil
  then show ?case by (simp add: run_Nil)
next
  case (Cons n ns)
  from Cons.prems(2) obtain p m rest
    where st: "att_steps a = (p, m) # rest" and len: "length ns = length rest"
    by (cases "att_steps a") auto
  note t = timer_progress_step [OF Cons.prems(1) st, of n]
  have "length ns = length (att_steps (a\<lparr>att_steps := rest\<rparr>))" using len by simp
  from Cons.IH [OF conjunct1 [OF conjunct2 [OF t]] this] t
  show ?case by (simp add: run_Cons)
qed

lemma processFile_settle_fields:
  "state (processFile_settle now f y) =
     (state y)\<lparr>extractedText := generateMockExtractedText (file_name f) now,
                isProcessing := False\<rparr> \<and>
   inflight (processFile_settle now f y) = inflight y \<and>
   (resultsContainer (elements y) \<noteq> None \<longrightarrow>
      resultsContainer (elements (processFile_settle now f y)) = Some ''block'')"
  by (simp add: processFile_settle_def hideProgress_def showResults_def Let_def)

lemma clearFile_fields:
  "state (clearFile x) = (state x)\<lparr>currentFile := None, extractedText := ''''\<rparr> \<and>
   inflight (clearFile x) = inflight x \<and>
   (resultsContainer (elements (clearFile x)) = None \<longleftrightarrow> resultsContainer (elements x) = None)"
  by (simp add: clearFile_def view_defs Let_def)

lemma validateFile_b_pdf: "validateFile (config processing_a) b_pdf = Valid"
  by (simp add: trace_defs)

section \<open>File intake\<close>

text \<open>
  Claim C5. A candidate whose MIME type is not \<^verbatim>\<open>application/pdf\<close> is refused by
  \<^verbatim>\<open>handleFileSelection\<close>: validation fails with the non-empty message
  \<^verbatim>\<open>Please select a PDF file only.\<close>, the error banner is displayed with that message
  (on a page that has the banner and its message element), and \<^verbatim>\<open>this.state\<close>, the
  stored file with it, is what it was before the call.
\<close>

theorem C5_wrong_type_is_rejected:
  assumes "allowedTypes (config x) = [''application/pdf'']"
    and "file_type f \<noteq> ''application/pdf''"
    and "errorContainer (elements x) \<noteq> None"
    and "errorMessage (elements x) \<noteq> None"
  shows "validateFile (config x) f = Invalid ''Please select a PDF file only.'' \<and>
         errorContainer (elements (handleFileSelection f x)) = Some ''block'' \<and>
         errorMessage (elements (handleFileSelection f x)) =
           Some ''Please select a PDF file only.'' \<and>
         ''Please select a PDF file only.'' \<noteq> '''' \<and>
         currentFile (state (handleFileSelection f x)) = currentFile (state x) \<and>
         state (handleFileSelection f x) = state x \<and>
         inflight (handleFileSelection f x) = inflight x"
proof -
  have v: "validateFile (config x) f = Invalid ''Please select a PDF file only.''"
    using assms(1,2) by (simp add: validateFile_wrong_type)
  have h: "handleFileSelection f x = showError ''Please select a PDF file only.'' x"
    by (rule handleFileSelection_invalid [OF v])
  from assms(4) obtain old where "errorMessage (elements x) = Some old" by auto
  then show ?thesis
    using v h showError_banner [OF assms(3), of "''Please select a PDF file only.''"]
    by (simp add: assign_def)
qed

theorem C5_wrong_type_is_rejected_witness:
  "validateFile (config (init full_page)) big_png = Invalid ''Please select a PDF file only.'' \<and>
   errorContainer (elements (handleFileSelection big_png (init full_page))) = Some ''block'' \<and>
   errorMessage (elements (handleFileSelection big_png (init full_page))) =
     Some ''Please select a PDF file only.'' \<and>
   currentFile (state (handleFileSelection big_png (init full_page))) = None"
  using C5_wrong_type_is_rejected [of "init full_page" big_png]
  by (simp add: init_def setupInitialState_def assign_def full_page_def big_png_def)

text \<open>
  The type is checked before the size, so a candidate over the limit that is not a PDF
  gets the message about the type: a 20 MiB image against the limit of 10 MiB.
\<close>

theorem C6_counterexample:
  "maxFileSize (config (init full_page)) < file_size big_png \<and>
   validateFile (config (init full_page)) big_png = Invalid ''Please select a PDF file only.'' \<and>
   errorMessage (elements (handleFileSelection big_png (init full_page))) =
     Some ''Please select a PDF file only.''"
  by (simp add: method_defs sample_defs)

text \<open>
  Claim C6, amended. A candidate of type \<^verbatim>\<open>application/pdf\<close> whose size exceeds the
  configured maximum is refused with the message \<^verbatim>\<open>File size must be less than L.\<close>,
  where \<open>L\<close> is \<^verbatim>\<open>formatFileSize\<close> of that same maximum; the banner shows it and
  \<^verbatim>\<open>this.state\<close> is unchanged. The second script compares against its constant of
  50 MiB and alerts the fixed text \<^verbatim>\<open>File size must be less than 50MB\<close>.
\<close>

theorem C6_too_large_reports_limit:
  assumes "file_type f = ''application/pdf''"
    and "allowedTypes (config x) = [''application/pdf'']"
    and "maxFileSize (config x) < file_size f"
    and "errorContainer (elements x) \<noteq> None"
    and "errorMessage (elements x) \<noteq> None"
  shows "validateFile (config x) f =
           Invalid (''File size must be less than '' @
                    formatFileSize (maxFileSize (config x)) @ ''.'') \<and>
         errorContainer (elements (handleFileSelection f x)) = Some ''block'' \<and>
         errorMessage (elements (handleFileSelection f x)) =
           Some (''File size must be less than '' @
                 formatFileSize (maxFileSize (config x)) @ ''.'') \<and>
         state (handleFileSelection f x) = state x \<and>
         (50 * 1024 * 1024 < file_size f \<longrightarrow>
            handleFileSelect f p =
              p\<lparr>s_alerts := s_alerts p @ [''File size must be less than 50MB'']\<rparr>)"
proof -
  let ?m = "''File size must be less than '' @ formatFileSize (maxFileSize (config x)) @ ''.''"
  have v: "validateFile (config x) f = Invalid ?m"
    using assms(1,2,3) by (simp add: validateFile_too_large)
  have h: "handleFileSelection f x = showError ?m x"
    by (rule handleFileSelection_invalid [OF v])
  from assms(5) obtain old where "errorMessage (elements x) = Some old" by auto
  then show ?thesis
    using v h showError_banner [OF assms(4), of ?m] assms(1)
    by (simp add: assign_def handleFileSelect_def alert_def)
qed

theorem C6_too_large_reports_limit_witness:
  "validateFile (config (init full_page)) big_pdf =
     Invalid ''File size must be less than 10 MB.'' \<and>
   errorMessage (elements (handleFileSelection big_pdf (init full_page))) =
     Some ''File size must be less than 10 MB.'' \<and>
   s_alerts (handleFileSelect big_pdf simple_page) = [''File size must be less than 50MB'']"
  using C6_too_large_reports_limit [of big_pdf "init full_page" simple_page]
  by (simp add: init_def setupInitialState_def assign_def full_page_def big_pdf_def
      simple_page_def formatFileSize_10MiB)

section \<open>Export\<close>

text \<open>
  Claim C7. With a stored file named \<^verbatim>\<open>report.pdf\<close> and a non-empty extracted text
  \<open>T\<close>, the download of either script is a \<^verbatim>\<open>Blob\<close> whose only part is \<open>T\<close>, so
  that its content read back is \<open>T\<close>, and the suggested file name is
  \<^verbatim>\<open>report_extracted.txt\<close>.
\<close>

theorem C7_export_round_trip:
  assumes "file_name f = ''report.pdf''" and "T \<noteq> ''''"
  shows "(currentFile (state x) = Some f \<and> extractedText (state x) = T \<longrightarrow>
            downloadText x =
              Some \<lparr>blob_parts = [T], blob_type = ''text/plain'',
                    suggested_name = ''report_extracted.txt''\<rparr>) \<and>
         (s_currentFile p = Some f \<and> s_extractedText p = Some T \<longrightarrow>
            downloadText_simple p =
              Inr (Some \<lparr>blob_parts = [T], blob_type = ''text/plain'',
                         suggested_name = ''report_extracted.txt''\<rparr>)) \<and>
         blob_text \<lparr>blob_parts = [T], blob_type = ''text/plain'',
                    suggested_name = ''report_extracted.txt''\<rparr> = T"
  using assms by (simp add: downloadText_def downloadText_simple_def blob_text_def)

theorem C7_export_round_trip_witness:
  "downloadText result_session =
     Some \<lparr>blob_parts = [''T''], blob_type = ''text/plain'',
           suggested_name = ''report_extracted.txt''\<rparr> \<and>
   downloadText_simple
     (simple_page\<lparr>s_currentFile := Some report_pdf, s_extractedText := Some ''T''\<rparr>) =
     Inr (Some \<lparr>blob_parts = [''T''], blob_type = ''text/plain'',
                suggested_name = ''report_extracted.txt''\<rparr>) \<and>
   blob_text \<lparr>blob_parts = [''T''], blob_type = ''text/plain'',
              suggested_name = ''report_extracted.txt''\<rparr> = ''T''"
  using C7_export_round_trip [of report_pdf "''T''" result_session
      "simple_page\<lparr>s_currentFile := Some report_pdf, s_extractedText := Some ''T''\<rparr>"]
  by (simp add: result_session_def report_pdf_def)

text \<open>
  The second script passes the suffix as the replacement, so the suffix lands where the
  first \<^verbatim>\<open>.pdf\<close> was and not at the end of the name.
\<close>

theorem C10_counterexample:
  "downloadText_simple
     (simple_page\<lparr>s_currentFile := Some twice_pdf, s_extractedText := Some ''T''\<rparr>) =
     Inr (Some \<lparr>blob_parts = [''T''], blob_type = ''text/plain'',
                suggested_name = ''a_extracted.txtb.pdf''\<rparr>) \<and>
   ''a_extracted.txtb.pdf'' \<noteq> ''ab.pdf_extracted.txt''"
  by (simp add: downloadText_simple_def twice_pdf_def simple_page_def)

text \<open>
  Claim C10, amended. Let \<open>n\<close> be the name of the stored file. In the class the
  suggested name is \<open>n\<close> with its first occurrence of \<^verbatim>\<open>.pdf\<close> removed, followed by
  \<^verbatim>\<open>_extracted.txt\<close>, and \<open>n\<close> followed by that suffix when \<^verbatim>\<open>.pdf\<close> does not
  occur. In the second script, for \<^verbatim>\<open>downloadText\<close> and \<^verbatim>\<open>downloadExcel\<close> alike, the
  first occurrence is replaced by the suffix in place, and a name without \<^verbatim>\<open>.pdf\<close> is
  suggested unchanged. An occurrence at \<open>u\<close> is the first one when no occurrence starts
  earlier.
\<close>

theorem C10_download_names:
  assumes "currentFile (state x) = Some f" and "extractedText (state x) \<noteq> ''''"
    and "s_currentFile p = Some f" and "s_extractedText p = Some content"
  shows "(\<forall>u v. file_name f = u @ ''.pdf'' @ v \<and>
                 (\<forall>u' v'. file_name f = u' @ ''.pdf'' @ v' \<longrightarrow> length u \<le> length u') \<longrightarrow>
            downloadText x =
              Some \<lparr>blob_parts = [extractedText (state x)], blob_type = ''text/plain'',
                    suggested_name = u @ v @ ''_extracted.txt''\<rparr> \<and>
            downloadText_simple p =
              Inr (Some \<lparr>blob_parts = [content], blob_type = ''text/plain'',
                         suggested_name = u @ ''_extracted.txt'' @ v\<rparr>)) \<and>
         ((\<forall>u v. file_name f \<noteq> u @ ''.pdf'' @ v) \<longrightarrow>
            downloadText x =
              Some \<lparr>blob_parts = [extractedText (state x)], blob_type = ''text/plain'',
                    suggested_name = file_name f @ ''_extracted.txt''\<rparr> \<and>
            downloadText_simple p =
              Inr (Some \<lparr>blob_parts = [content], blob_type = ''text/plain'',
                         suggested_name = file_name f\<rparr>)) \<and>
         downloadExcel p = downloadText_simple p"
proof (intro conjI allI impI)
  fix u v
  assume h: "file_name f = u @ ''.pdf'' @ v \<and>
             (\<forall>u' v'. file_name f = u' @ ''.pdf'' @ v' \<longrightarrow> length u \<le> length u')"
  then have m: "\<forall>u' v'. u @ ''.pdf'' @ v = u' @ ''.pdf'' @ v' \<longrightarrow> length u \<le> length u'"
    by simp
  have r: "js_replace ''.pdf'' rep (file_name f) = u @ rep @ v" for rep
    using js_replace_first [OF _ m, of rep] h by simp
  show "downloadText x =
          Some \<lparr>blob_parts = [extractedText (state x)], blob_type = ''text/plain'',
                suggested_name = u @ v @ ''_extracted.txt''\<rparr>"
    using assms(1,2) r [of "''''"] by (simp add: downloadText_def)
  show "downloadText_simple p =
          Inr (Some \<lparr>blob_parts = [content], blob_type = ''text/plain'',
                     suggested_name = u @ ''_extracted.txt'' @ v\<rparr>)"
    using assms(3,4) r [of "''_extracted.txt''"] by (simp add: downloadText_simple_def)
next
  assume h: "\<forall>u v. file_name f \<noteq> u @ ''.pdf'' @ v"
  have r: "js_replace ''.pdf'' rep (file_name f) = file_name f" for rep
    by (rule js_replace_absent [OF h])
  show "downloadText x =
          Some \<lparr>blob_parts = [extractedText (state x)], blob_type = ''text/plain'',
                suggested_name = file_name f @ ''_extracted.txt''\<rparr>"
    using assms(1,2) r [of "''''"] by (simp add: downloadText_def)
  show "downloadText_simple p =
          Inr (Some \<lparr>blob_parts = [content], blob_type = ''text/plain'',
                     suggested_name = file_name f\<rparr>)"
    using assms(3,4) r [of "''_extracted.txt''"] by (simp add: downloadText_simple_def)
next
  show "downloadExcel p = downloadText_simple p" by (simp add: downloadExcel_def)
qed

theorem C10_download_names_witness:
  "downloadText twice_session =
     Some \<lparr>blob_parts = [''T''], blob_type = ''text/plain'',
           suggested_name = ''ab.pdf_extracted.txt''\<rparr> \<and>
   downloadText_simple
     (simple_page\<lparr>s_currentFile := Some twice_pdf, s_extractedText := Some ''T''\<rparr>) =
     Inr (Some \<lparr>blob_parts = [''T''], blob_type = ''text/plain'',
                suggested_name = ''a_extracted.txtb.pdf''\<rparr>) \<and>
   downloadText notes_session =
     Some \<lparr>blob_parts = [''T''], blob_type = ''text/plain'',
           suggested_name = ''NOTES.PDF_extracted.txt''\<rparr> \<and>
   downloadText_simple
     (simple_page\<lparr>s_currentFile := Some notes_pdf, s_extractedText := Some ''T''\<rparr>) =
     Inr (Some \<lparr>blob_parts = [''T''], blob_type = ''text/plain'',
                suggested_name = ''NOTES.PDF''\<rparr>)"
proof -
  let ?p = "simple_page\<lparr>s_currentFile := Some twice_pdf, s_extractedText := Some ''T''\<rparr>"
  let ?q = "simple_page\<lparr>s_currentFile := Some notes_pdf, s_extractedText := Some ''T''\<rparr>"
  have a: "currentFile (state twice_session) = Some twice_pdf"
    and a': "extractedText (state twice_session) \<noteq> ''''"
    and a'': "extractedText (state twice_session) = ''T''"
    by (simp_all add: twice_session_def)
  have b: "currentFile (state notes_session) = Some notes_pdf"
    and b': "extractedText (state notes_session) \<noteq> ''''"
    and b'': "extractedText (state notes_session) = ''T''"
    by (simp_all add: notes_session_def)
  have p: "s_currentFile ?p = Some twice_pdf" "s_extractedText ?p = Some ''T''"
    and q: "s_currentFile ?q = Some notes_pdf" "s_extractedText ?q = Some ''T''"
    by simp_all
  have m: "file_name twice_pdf = ''a'' @ ''.pdf'' @ ''b.pdf'' \<and>
           (\<forall>u' v'. file_name twice_pdf = u' @ ''.pdf'' @ v' \<longrightarrow> length ''a'' \<le> length u')"
    using twice_first_occurrence by (simp add: twice_pdf_def)
  have n: "\<forall>u v. file_name notes_pdf \<noteq> u @ ''.pdf'' @ v"
    using notes_no_occurrence by (simp add: notes_pdf_def)
  note first = C10_download_names [OF a a' p, THEN conjunct1, rule_format, OF m]
  note none = C10_download_names [OF b b' q, THEN conjunct2, THEN conjunct1, THEN mp, OF n]
  from first none show ?thesis
    by (simp add: a'' b'' notes_pdf_def)
qed

section \<open>Lifecycle\<close>

text \<open>
  \<^verbatim>\<open>clearFile\<close> does not touch \<^verbatim>\<open>isProcessing\<close> or the suspended \<^verbatim>\<open>processFile\<close>,
  and the class keeps no sequence number: a file is chosen, the clear button is clicked
  while its extraction is in flight, and the five timers of that extraction then leave
  its text in the cleared session.
\<close>

theorem C1_counterexample:
  "isProcessing (state processing_a) \<and>
   stale_result = run processing_a (ClearClick # five_timers) \<and>
   extractedText (state stale_result) = generateMockExtractedText ''a.pdf'' a_time \<and>
   extractedText (state stale_result) \<noteq> '''' \<and>
   \<not> idle stale_result"
  by (simp add: processing_a_state stale_result_state idle_def)
     (simp add: stale_result_def processing_a_def run_def)

text \<open>
  Claim C1, amended. When \<^verbatim>\<open>clearFile\<close> runs while one attempt is in flight, the
  session is not idle afterwards (\<^verbatim>\<open>isProcessing\<close> stays set, the text is empty), and
  once the remaining timers of the attempt have fired its completion is applied to the
  cleared session: \<^verbatim>\<open>extractedText\<close> is the text generated for the file of the
  attempt, which is not empty, the result panel is displayed, \<^verbatim>\<open>isProcessing\<close> is
  false, \<^verbatim>\<open>currentFile\<close> is still \<^verbatim>\<open>null\<close> and nothing is in flight.
\<close>

theorem C1_stale_completion_is_applied:
  assumes "isProcessing (state x)" and "inflight x = [a]"
    and "length nows = length (att_steps a)"
  shows "isProcessing (state (clearFile x)) \<and>
         extractedText (state (clearFile x)) = '''' \<and>
         state (run (clearFile x) (map Timer (nows @ [now]))) =
           \<lparr>isProcessing = False, currentFile = None,
            extractedText = generateMockExtractedText (file_name (att_file a)) now,
            dragCounter = dragCounter (state x)\<rparr> \<and>
         inflight (run (clearFile x) (map Timer (nows @ [now]))) = [] \<and>
         \<not> idle (run (clearFile x) (map Timer (nows @ [now]))) \<and>
         (resultsContainer (elements x) \<noteq> None \<longrightarrow>
            resultsContainer (elements (run (clearFile x) (map Timer (nows @ [now])))) =
              Some ''block'')"
proof -
  let ?c = "clearFile x"
  let ?z = "run ?c (map Timer nows)"
  let ?a = "a\<lparr>att_steps := []\<rparr>"
  note c = clearFile_fields [of x]
  have ci: "inflight ?c = [a]" using c assms(2) by simp
  note z = timers_progress [OF ci assms(3)]
  have zi: "inflight ?z = [?a]" using z by simp
  have fin: "run ?c (map Timer (nows @ [now])) =
               processFile_settle now (att_file a) (?z\<lparr>inflight := []\<rparr>)"
    using timer_settles [OF zi, of now] by (simp add: run_append run_Cons run_Nil)
  note s = processFile_settle_fields [of now "att_file a" "?z\<lparr>inflight := []\<rparr>"]
  have st: "state (run ?c (map Timer (nows @ [now]))) =
              \<lparr>isProcessing = False, currentFile = None,
               extractedText = generateMockExtractedText (file_name (att_file a)) now,
               dragCounter = dragCounter (state x)\<rparr>"
    using fin s z c by simp
  have res: "resultsContainer (elements x) \<noteq> None \<longrightarrow>
               resultsContainer (elements (run ?c (map Timer (nows @ [now])))) = Some ''block''"
    using fin s z c by simp
  have inf: "inflight (run ?c (map Timer (nows @ [now]))) = []"
    using fin s by simp
  have "\<not> idle (run ?c (map Timer (nows @ [now])))"
    using st by (simp add: idle_def)
  with st res inf c assms(1) show ?thesis by simp
qed

theorem C1_stale_completion_is_applied_witness:
  "isProcessing (state (clearFile processing_a)) \<and>
   state (run (clearFile processing_a)
            [Timer a_time, Timer a_time, Timer a_time, Timer a_time, Timer a_time]) =
     \<lparr>isProcessing = False, currentFile = None,
      extractedText = generateMockExtractedText ''a.pdf'' a_time, dragCounter = 0\<rparr> \<and>
   \<not> idle (run (clearFile processing_a)
              [Timer a_time, Timer a_time, Timer a_time, Timer a_time, Timer a_time]) \<and>
   resultsContainer
     (elements (run (clearFile processing_a)
        [Timer a_time, Timer a_time, Timer a_time, Timer a_time, Timer a_time])) =
     Some ''block''"
  using C1_stale_completion_is_applied
    [of processing_a "\<lparr>att_file = a_pdf, att_steps = later_steps\<rparr>"
        "[a_time, a_time, a_time, a_time]" a_time]
  by (simp add: processing_a_state processing_a_inflight processing_a_results
      later_steps_def a_pdf_def)

text \<open>
  \<^verbatim>\<open>handleFileSelection\<close> stores a valid candidate before it calls \<^verbatim>\<open>processFile\<close>,
  whose guard is the only test of \<^verbatim>\<open>isProcessing\<close>: a second PDF chosen while the
  first is being processed replaces the stored file.
\<close>

theorem C2_counterexample:
  "isProcessing (state processing_a) \<and>
   currentFile (state processing_a) = Some a_pdf \<and>
   currentFile (state (handleFileSelection b_pdf processing_a)) = Some b_pdf \<and>
   currentFile (state (handleFileSelection b_pdf processing_a)) \<noteq>
     currentFile (state processing_a)"
  by (simp add: processing_a_state handleFileSelection_def validateFile_b_pdf
      processFile_def view_defs Let_def)
     (simp add: a_pdf_def b_pdf_def)

text \<open>
  Claim C2, amended. While \<^verbatim>\<open>isProcessing\<close> is true, a new selection starts no
  second extraction: \<^verbatim>\<open>isProcessing\<close>, the attempt in flight, \<^verbatim>\<open>extractedText\<close>,
  the drag counter and the configuration are unchanged. The stored file is unchanged when
  the candidate fails validation, and is replaced by the candidate when it passes.
\<close>

theorem C2_selection_while_processing:
  assumes "isProcessing (state x)"
  shows "isProcessing (state (handleFileSelection f x)) \<and>
         inflight (handleFileSelection f x) = inflight x \<and>
         extractedText (state (handleFileSelection f x)) = extractedText (state x) \<and>
         dragCounter (state (handleFileSelection f x)) = dragCounter (state x) \<and>
         config (handleFileSelection f x) = config x \<and>
         currentFile (state (handleFileSelection f x)) =
           (case validateFile (config x) f of
              Valid \<Rightarrow> Some f
            | Invalid message \<Rightarrow> currentFile (state x))"
  using assms
  by (simp add: handleFileSelection_def processFile_def view_defs Let_def
      split: validation.splits)

theorem C2_selection_while_processing_witness:
  "isProcessing (state (handleFileSelection b_pdf processing_a)) \<and>
   inflight (handleFileSelection b_pdf processing_a) =
     [\<lparr>att_file = a_pdf, att_steps = later_steps\<rparr>] \<and>
   extractedText (state (handleFileSelection b_pdf processing_a)) = '''' \<and>
   currentFile (state (handleFileSelection b_pdf processing_a)) = Some b_pdf \<and>
   currentFile (state (handleFileSelection big_png processing_a)) = Some a_pdf"
  using C2_selection_while_processing [of processing_a b_pdf]
    C2_selection_while_processing [of processing_a big_png]
  by (simp add: processing_a_state processing_a_inflight validateFile_b_pdf)
     (simp add: trace_defs)

text \<open>
  Nothing but \<^verbatim>\<open>clearFile\<close> empties \<^verbatim>\<open>extractedText\<close>: after a completed
  extraction, choosing a second file starts processing with the text of the first still
  stored.
\<close>

theorem C3_counterexample:
  "isProcessing (state second_processing) \<and>
   extractedText (state second_processing) = generateMockExtractedText ''a.pdf'' a_time \<and>
   extractedText (state second_processing) \<noteq> ''''"
  by (simp add: second_processing_state)

text \<open>
  Claim C3, amended. On a page that has the results container, in every state reached
  from the initial one \<^verbatim>\<open>extractedText\<close> is non-empty exactly when the results
  container is displayed, that is from the completion of an extraction to the next
  \<^verbatim>\<open>clearFile\<close>; this includes a later processing phase and an error banner shown
  after a result.
\<close>

theorem C3_text_iff_results_displayed:
  assumes "resultsContainer els \<noteq> None"
  shows "extractedText (state (run (init els) es)) \<noteq> '''' \<longleftrightarrow>
         resultsContainer (elements (run (init els) es)) = Some ''block''"
  using rc_run [OF rc_init [OF assms], of es] by (simp add: results_consistent_def)

theorem C3_text_iff_results_displayed_witness:
  "resultsContainer full_page \<noteq> None \<and>
   resultsContainer (elements second_processing) = Some ''block'' \<and>
   extractedText (state second_processing) \<noteq> ''''"
proof -
  have h: "resultsContainer full_page \<noteq> None" by (simp add: full_page_def)
  from C3_text_iff_results_displayed [OF h,
      of "FileInputChange [a_pdf] # five_timers @ [FileInputChange [b_pdf]]",
      folded second_processing_def] second_processing_results
  have "extractedText (state second_processing) \<noteq> ''''" by simp
  with h second_processing_results show ?thesis by simp
qed

text \<open>
  \<^verbatim>\<open>extractPDF\<close> of the second script has no guard: with a file selected, two clicks
  on the extract button leave two timeouts pending.
\<close>

theorem C4_counterexample:
  "s_timeouts (simple_run simple_page [InputChange [a_pdf], ExtractClick, ExtractClick]) = 2"
  by (simp add: simple_run_def simple_page_def a_pdf_def handleFileSelect_def
      showOptionsCard_def showFilePreview_simple_def extract_click_def extractPDF_def assign_def)

text \<open>
  Claim C4, amended. In the class, a \<^verbatim>\<open>processFile\<close> call that arrives while another
  is in flight does nothing, so two calls in succession leave exactly the attempt of the
  first one; in every state reached from the initial one at most one attempt is in flight,
  and one is in flight exactly when \<^verbatim>\<open>isProcessing\<close> is true. In the second script
  every click on the extract button with a file selected sets one more timeout.
\<close>

theorem C4_one_extraction_in_flight:
  "length (inflight (run (init els) es)) \<le> 1 \<and>
   (isProcessing (state (run (init els) es)) \<longleftrightarrow> inflight (run (init els) es) \<noteq> []) \<and>
   processFile g (processFile f x) = processFile f x \<and>
   (\<not> isProcessing (state x) \<longrightarrow>
      inflight (processFile g (processFile f x)) =
        inflight x @ [\<lparr>att_file = f, att_steps = later_steps\<rparr>]) \<and>
   (s_extractBtn p \<and> s_currentFile p \<noteq> None \<longrightarrow>
      s_timeouts (simple_run p [ExtractClick, ExtractClick]) = s_timeouts p + 2)"
proof -
  have a: "length (inflight (run (init els) es)) \<le> 1 \<and>
           (isProcessing (state (run (init els) es)) \<longleftrightarrow> inflight (run (init els) es) \<noteq> [])"
    using sf_run [OF sf_init, of els es] by (simp add: single_flight_def)
  have b: "processFile g (processFile f x) = processFile f x"
    by (simp add: processFile_def await_delay_def showProgress_def updateProgress_def Let_def)
  have c: "\<not> isProcessing (state x) \<longrightarrow>
             inflight (processFile f x) = inflight x @ [\<lparr>att_file = f, att_steps = later_steps\<rparr>]"
    by (simp add: processFile_def await_delay_def showProgress_def updateProgress_def Let_def)
  have d: "s_extractBtn p \<and> s_currentFile p \<noteq> None \<longrightarrow>
             s_timeouts (simple_run p [ExtractClick, ExtractClick]) = s_timeouts p + 2"
    by (simp add: simple_run_def extract_click_def extractPDF_def)
  from a b c d show ?thesis by simp
qed

theorem C4_one_extraction_in_flight_witness:
  "length (inflight second_processing) \<le> 1 \<and>
   inflight (processFile b_pdf (processFile a_pdf (init full_page))) =
     [\<lparr>att_file = a_pdf, att_steps = later_steps\<rparr>] \<and>
   s_timeouts (simple_run (simple_page\<lparr>s_currentFile := Some a_pdf\<rparr>)
                 [ExtractClick, ExtractClick]) = 2"
proof -
  note t = C4_one_extraction_in_flight
    [of full_page "FileInputChange [a_pdf] # five_timers @ [FileInputChange [b_pdf]]"
        b_pdf a_pdf "init full_page" "simple_page\<lparr>s_currentFile := Some a_pdf\<rparr>",
     folded second_processing_def]
  have i: "\<not> isProcessing (state (init full_page))" "inflight (init full_page) = []"
    by (simp_all add: init_def setupInitialState_def)
  have p: "s_extractBtn (simple_page\<lparr>s_currentFile := Some a_pdf\<rparr>)"
    "s_currentFile (simple_page\<lparr>s_currentFile := Some a_pdf\<rparr>) \<noteq> None"
    "s_timeouts (simple_page\<lparr>s_currentFile := Some a_pdf\<rparr>) = 0"
    by (simp_all add: simple_page_def)
  from t have 1: "length (inflight second_processing) \<le> 1" by simp
  note four = t [THEN conjunct2, THEN conjunct2, THEN conjunct2, THEN conjunct1,
      THEN mp, OF i(1)]
  have 2: "inflight (processFile b_pdf (processFile a_pdf (init full_page))) =
             [\<lparr>att_file = a_pdf, att_steps = later_steps\<rparr>]"
    using four by (simp add: i(2))
  note five = t [THEN conjunct2, THEN conjunct2, THEN conjunct2, THEN conjunct2,
      THEN mp, OF conjI [OF p(1) p(2)]]
  have 3: "s_timeouts (simple_run (simple_page\<lparr>s_currentFile := Some a_pdf\<rparr>)
                        [ExtractClick, ExtractClick]) = 2"
    using five by (simp add: p(3))
  from 1 2 3 show ?thesis by (simp only: simp_thms)
qed


text \<open>
  \<^verbatim>\<open>downloadText\<close> tests the stored text and the stored file, not the phase: during
  the processing of a second file it exports the text of the first under the name of the
  second.
\<close>

theorem C8_counterexample:
  "isProcessing (state second_processing) \<and>
   downloadText second_processing =
     Some \<lparr>blob_parts = [generateMockExtractedText ''a.pdf'' a_time],
           blob_type = ''text/plain'', suggested_name = ''b_extracted.txt''\<rparr>"
  by (simp add: downloadText_def second_processing_state b_pdf_def)

text \<open>
  Claim C8, amended. \<^verbatim>\<open>downloadText\<close> produces a \<^verbatim>\<open>Blob\<close> and a file name exactly
  when \<^verbatim>\<open>extractedText\<close> is non-empty and a file is stored; in the states reached
  from the initial one on a page with the results container, exactly when the results
  container is displayed and a file is stored. Otherwise it returns without producing
  anything; it has no error to signal.
\<close>

theorem C8_export_iff_result_and_file:
  assumes "resultsContainer els \<noteq> None"
  shows "(downloadText (run (init els) es) \<noteq> None \<longleftrightarrow>
            resultsContainer (elements (run (init els) es)) = Some ''block'' \<and>
            currentFile (state (run (init els) es)) \<noteq> None) \<and>
         (downloadText (run (init els) es) \<noteq> None \<longleftrightarrow>
            extractedText (state (run (init els) es)) \<noteq> '''' \<and>
            currentFile (state (run (init els) es)) \<noteq> None)"
  using rc_run [OF rc_init [OF assms], of es]
  by (auto simp add: results_consistent_def downloadText_def split: option.splits)

theorem C8_export_iff_result_and_file_witness:
  "resultsContainer full_page \<noteq> None \<and>
   downloadText second_processing \<noteq> None \<and> downloadText processing_a = None"
proof -
  have h: "resultsContainer full_page \<noteq> None" by (simp add: full_page_def)
  from C8_export_iff_result_and_file [OF h,
      of "FileInputChange [a_pdf] # five_timers @ [FileInputChange [b_pdf]]",
      folded second_processing_def] second_processing_results
  have 1: "downloadText second_processing \<noteq> None"
    by (simp add: second_processing_state)
  from C8_export_iff_result_and_file [OF h, of "[FileInputChange [a_pdf]]",
      folded processing_a_def]
  have 2: "downloadText processing_a = None"
    by (simp add: processing_a_state)
  from h 1 2 show ?thesis by simp
qed

text \<open>
  The escape key clears only when a file is stored. The session left by a completion
  that arrived after a clear has text and no file, and the escape key leaves it as it is.
\<close>

theorem C9_counterexample:
  "\<not> isProcessing (state stale_result) \<and>
   extractedText (state (handleEscapeKey stale_result)) \<noteq> '''' \<and>
   resultsContainer (elements (handleEscapeKey stale_result)) = Some ''block'' \<and>
   \<not> idle (handleEscapeKey stale_result)"
  by (simp add: handleEscapeKey_def hideError_def Let_def stale_result_state
      stale_result_results idle_def)

text \<open>
  Claim C9, amended. When nothing is being processed and a file is stored, the escape
  key leads to the idle session: file and text discarded, result panel and error banner
  hidden. When nothing is being processed and no file is stored, it only hides the error
  banner and leaves \<^verbatim>\<open>this.state\<close> and the result panel as they are. During
  processing it changes neither \<^verbatim>\<open>this.state\<close> nor the attempt in flight, and hides
  the error banner.
\<close>

theorem C9_escape_key:
  "(\<not> isProcessing (state x) \<and> currentFile (state x) \<noteq> None \<longrightarrow>
      idle (handleEscapeKey x) \<and>
      resultsContainer (elements (handleEscapeKey x)) \<noteq> Some ''block'') \<and>
   (\<not> isProcessing (state x) \<and> currentFile (state x) = None \<longrightarrow>
      state (handleEscapeKey x) = state x \<and>
      errorContainer (elements (handleEscapeKey x)) \<noteq> Some ''block'' \<and>
      resultsContainer (elements (handleEscapeKey x)) = resultsContainer (elements x)) \<and>
   (isProcessing (state x) \<longrightarrow>
      state (handleEscapeKey x) = state x \<and>
      inflight (handleEscapeKey x) = inflight x \<and>
      errorContainer (elements (handleEscapeKey x)) \<noteq> Some ''block'')"
  by (cases "errorContainer (elements x)"; cases "resultsContainer (elements x)")
     (simp_all add: handleEscapeKey_def clearFile_def view_defs Let_def idle_def)

theorem C9_escape_key_witness:
  "idle (handleEscapeKey result_a) \<and>
   state (handleEscapeKey stale_result) = state stale_result \<and>
   state (handleEscapeKey processing_a) = state processing_a"
  using C9_escape_key [of result_a] C9_escape_key [of stale_result]
    C9_escape_key [of processing_a]
  by (simp add: result_a_state stale_result_state processing_a_state)

end
